theory Spec2Isabelle
  imports Main "HOL-Library.Word"
begin

unbundle bit_operations_syntax

section \<open>History entries and the undo file\<close>

text \<open>
  \<^verbatim>\<open>struct history_entry\<close> of \<^verbatim>\<open>xundo_system.h\<close>. The mutex is not a field of
  the model: every job body and every locked region of the owner thread is one atomic
  step. \<^verbatim>\<open>int\<close> is a 32-bit word, \<^verbatim>\<open>std::uint64_t\<close> a 64-bit word, a
  \<^verbatim>\<open>std::byte\<close> an 8-bit word.
\<close>

type_synonym byte = "8 word"

record history_entry =
  m_UserID :: "32 word"
  m_TimeStamp :: "64 word"
  m_CommandString :: string
  m_CacheUndoData :: "byte list"
  m_bHasBeenSaved :: bool

text \<open>\<^verbatim>\<open>std::make_shared<history_entry>()\<close>: value initialisation, every field zero.\<close>

definition new_history_entry :: history_entry where
  "new_history_entry =
     \<lparr>m_UserID = 0, m_TimeStamp = 0, m_CommandString = [], m_CacheUndoData = [],
      m_bHasBeenSaved = False\<rparr>"

record undo_file =
  m_Entry :: history_entry
  m_Index :: "32 word"

definition make_undo_file :: "history_entry \<Rightarrow> undo_file" where
  "make_undo_file Entry = \<lparr>m_Entry = Entry, m_Index = 0\<rparr>"

text \<open>\<^verbatim>\<open>undo_file::Write\<close>: insert the bytes at the cursor, advance the cursor.\<close>

definition undo_file_Write :: "undo_file \<Rightarrow> byte list \<Rightarrow> undo_file" where
  "undo_file_Write F Data =
     (let Cache = m_CacheUndoData (m_Entry F); i = unat (m_Index F)
      in F\<lparr>m_Entry := (m_Entry F)\<lparr>m_CacheUndoData := take i Cache @ Data @ drop i Cache\<rparr>,
            m_Index := m_Index F + of_nat (length Data)\<rparr>)"

text \<open>
  \<^verbatim>\<open>undo_file::Read\<close>: the assertion \<^verbatim>\<open>m_Index + Size <= Cache.size()\<close> is the
  \<open>None\<close> branch.
\<close>

definition undo_file_Read :: "undo_file \<Rightarrow> nat \<Rightarrow> (byte list \<times> undo_file) option" where
  "undo_file_Read F Size =
     (let Cache = m_CacheUndoData (m_Entry F); i = unat (m_Index F)
      in if i + Size \<le> length Cache
         then Some (take Size (drop i Cache), F\<lparr>m_Index := m_Index F + of_nat Size\<rparr>)
         else None)"

section \<open>Commands\<close>

text \<open>
  \<^verbatim>\<open>struct command_base\<close>. The caller's data (\<^verbatim>\<open>m_pDataBase\<close>) has type \<open>'db\<close>.
  The parser \<^verbatim>\<open>xcmdline::parser\<close> is not part of the repository's sources: it is a
  parameter. \<open>cmd_Parse\<close> is \<^verbatim>\<open>command_base::Parse\<close> (\<^verbatim>\<open>clearArgs\<close>, then
  \<^verbatim>\<open>Parse\<close>): the error string and the parser's state \<open>'p\<close> after parsing the
  string. Every use of the parser's state in the engine follows a fresh parse, so the
  state is passed on rather than stored. \<open>cmd_hasHelp\<close> is
  \<^verbatim>\<open>m_Parser.hasOption(m_hHelp)\<close>. \<open>cmd_Redo\<close> returns its error string and the data
  it leaves behind. \<open>cmd_BackupCurrenState\<close> gives the bytes the command writes with
  \<^verbatim>\<open>File.Write\<close>; \<open>cmd_Undo\<close> reads the file and is \<open>None\<close> when a read runs into
  the assertion of \<^verbatim>\<open>undo_file::Read\<close>.
\<close>

record ('db, 'p) command_base =
  cmd_Parse :: "string \<Rightarrow> string \<times> 'p"
  cmd_hasHelp :: "'p \<Rightarrow> bool"
  cmd_Redo :: "'p \<Rightarrow> 'db \<Rightarrow> string \<times> 'db"
  cmd_Undo :: "undo_file \<Rightarrow> 'db \<Rightarrow> 'db option"
  cmd_BackupCurrenState :: "'db \<Rightarrow> byte list"

text \<open>\<^verbatim>\<open>getCommandName\<close>: the text before the first space, or the whole string.\<close>

definition getCommandName :: "string \<Rightarrow> string" where
  "getCommandName str = takeWhile (\<lambda>c. c \<noteq> CHR '' '') str"

section \<open>Files\<close>

text \<open>
  The file system is a map from paths to contents. Opening a file for writing always
  succeeds (the engine assumes that the directory exists); opening for reading fails
  when the path has no file. \<^verbatim>\<open>std::format("{}", n)\<close> writes \<open>n\<close> in decimal.
\<close>

type_synonym filesystem = "string \<Rightarrow> byte list option"

fun to_decimal :: "nat \<Rightarrow> string" where
  "to_decimal n =
     (if n < 10 then [char_of (48 + n)]
      else to_decimal (n div 10) @ [char_of (48 + n mod 10)])"

declare to_decimal.simps [simp del]

definition UndoStep_path :: "string \<Rightarrow> 64 word \<Rightarrow> string" where
  "UndoStep_path Path TimeStamp = Path @ ''/UndoStep-'' @ to_decimal (unat TimeStamp)"

definition UndoTimestamps_path :: "string \<Rightarrow> string" where
  "UndoTimestamps_path Path = Path @ ''/UndoTimestamps.bin''"

text \<open>\<^verbatim>\<open>std::filesystem::remove\<close>; a missing file is no error.\<close>

definition remove_file :: "string \<Rightarrow> filesystem \<Rightarrow> filesystem" where
  "remove_file Path fs = fs(Path := None)"

text \<open>Little-endian bytes of a word, as \<^verbatim>\<open>fwrite\<close> and \<^verbatim>\<open>fread\<close> see them.\<close>

fun nat_bytes :: "nat \<Rightarrow> nat \<Rightarrow> byte list" where
  "nat_bytes 0 x = []"
| "nat_bytes (Suc n) x = of_nat (x mod 256) # nat_bytes n (x div 256)"

fun bytes_nat :: "byte list \<Rightarrow> nat" where
  "bytes_nat [] = 0"
| "bytes_nat (b # bs) = unat b + 256 * bytes_nat bs"

definition le_bytes :: "nat \<Rightarrow> 'a::len word \<Rightarrow> byte list" where
  "le_bytes n w = nat_bytes n (unat w)"

definition le_word :: "byte list \<Rightarrow> 'a::len word" where
  "le_word bs = of_nat (bytes_nat bs)"

definition byte_of_char :: "char \<Rightarrow> byte" where
  "byte_of_char c = of_nat (of_char c)"

definition char_of_byte :: "byte \<Rightarrow> char" where
  "char_of_byte b = char_of (unat b)"

text \<open>
  \<^verbatim>\<open>fread(buf, n, 1, File) == 1\<close> on the rest of a file: whether one whole item of
  \<open>n\<close> bytes was read (never for \<open>n = 0\<close>), the bytes read, and the rest. A short read
  leaves an indeterminate value in the source; the model keeps the bytes that were there
  and fills a scalar with zeros.
\<close>

definition fread :: "nat \<Rightarrow> byte list \<Rightarrow> bool \<times> byte list \<times> byte list" where
  "fread n File = (0 < n \<and> n \<le> length File, take n File, drop n File)"

text \<open>\<^verbatim>\<open>std::vector::resize\<close> and \<^verbatim>\<open>std::string::resize\<close>.\<close>

definition resize :: "nat \<Rightarrow> 'a \<Rightarrow> 'a list \<Rightarrow> 'a list" where
  "resize n z xs = take n xs @ replicate (n - length xs) z"

text \<open>
  \<^verbatim>\<open>job::save_to_disk::Save\<close>. Both lengths are cast to \<^verbatim>\<open>uint32_t\<close>, and that many
  bytes are written. \<^verbatim>\<open>fwrite(p, n, 1, File) == 1\<close> is false for \<open>n = 0\<close>, so \<open>Ok\<close> is
  false for an empty payload or an empty command string, although the file is written.
\<close>

definition Save :: "history_entry \<Rightarrow> string \<Rightarrow> filesystem \<Rightarrow> bool \<times> filesystem" where
  "Save Entry Path fs =
     (let DataLen = (of_nat (length (m_CacheUndoData Entry)) :: 32 word);
          Data = take (unat DataLen) (m_CacheUndoData Entry);
          StrLen = (of_nat (length (m_CommandString Entry)) :: 32 word);
          Str = take (unat StrLen) (m_CommandString Entry);
          Ok = (Data \<noteq> [] \<and> Str \<noteq> []);
          File = le_bytes 4 DataLen @ Data @ le_bytes 4 (m_UserID Entry)
                 @ le_bytes 8 (m_TimeStamp Entry) @ le_bytes 4 StrLen @ map byte_of_char Str
      in (Ok, fs(UndoStep_path Path (m_TimeStamp Entry) \<mapsto> File)))"

text \<open>\<^verbatim>\<open>job::warmup_cache::Load\<close>, reading the file named by the entry's timestamp.\<close>

definition Load :: "history_entry \<Rightarrow> string \<Rightarrow> bool \<Rightarrow> bool \<Rightarrow> filesystem \<Rightarrow> bool \<times> history_entry" where
  "Load Entry Path bLoadKeyData bLoadCacheData fs =
     (case fs (UndoStep_path Path (m_TimeStamp Entry)) of
        None \<Rightarrow> (False, Entry)
      | Some File \<Rightarrow>
          (let (Ok1, b1, r1) = fread 4 File;
               DataLen = unat (le_word b1 :: 32 word);
               (Ok2, b2, r2) = fread DataLen r1;
               E2 = (if bLoadCacheData
                     then Entry\<lparr>m_CacheUndoData :=
                            b2 @ drop (length b2) (resize DataLen 0 (m_CacheUndoData Entry))\<rparr>
                     else Entry);
               Ok12 = (Ok1 \<and> (if bLoadCacheData then Ok2 else True))
           in if bLoadKeyData then
                (let (Ok3, b3, r3) = fread 4 r2;
                     (Ok4, b4, r4) = fread 8 r3;
                     (Ok5, b5, r5) = fread 4 r4;
                     StrLen = unat (le_word b5 :: 32 word);
                     (Ok6, b6, r6) = fread StrLen r5;
                     Str = map char_of_byte b6
                           @ drop (length b6) (resize StrLen (CHR 0x00) (m_CommandString E2))
                 in (Ok12 \<and> Ok3 \<and> Ok4 \<and> Ok5 \<and> Ok6,
                     E2\<lparr>m_UserID := le_word b3, m_TimeStamp := le_word b4,
                        m_CommandString := Str\<rparr>))
              else (Ok12, E2)))"

section \<open>The engine\<close>

text \<open>
  The jobs of namespace \<^verbatim>\<open>job\<close>. A \<^verbatim>\<open>std::shared_ptr<history_entry>\<close> is an index
  into the store \<open>heap\<close> of the engine's state: the history, the LRU window and the
  jobs share entries, and clearing or loading a payload through one reference is seen
  through the others.
\<close>

type_synonym entry_ref = nat

datatype job =
    save_to_disk entry_ref
  | delete_entries "64 word list"
  | warmup_cache entry_ref
  | load_entries entry_ref

text \<open>
  Every \<^verbatim>\<open>assert\<close> of the source that fails, the dereference of a null command
  pointer and an out-of-range subscript of \<^verbatim>\<open>m_History\<close> end an operation with an
  error.
\<close>

datatype error =
    Assert_Done
  | Assert_UndoPath
  | Assert_CacheUndoData
  | Assert_MaxCachedSteps
  | Assert_AutoLoadSave
  | Assert_Read
  | Null_Command
  | History_Out_Of_Range

text \<open>
  \<^verbatim>\<open>class system\<close>. \<open>m_UndoIndex\<close> (an \<^verbatim>\<open>int\<close>) and the two \<^verbatim>\<open>size_t\<close> bounds
  are natural numbers: they count entries held in memory. The threads, the mutex and the
  condition variable are replaced by the steps of \<open>IOWorker\<close> below. \<open>heap\<close> holds the
  entries, \<open>files\<close> the file system and \<open>database\<close> the caller's data that the
  commands point to.
\<close>

record ('db, 'p) system =
  m_UndoIndex :: nat
  m_History :: "entry_ref list"
  m_LRU :: "entry_ref list"
  m_Commands :: "string \<Rightarrow> ('db, 'p) command_base option"
  m_UndoPath :: string
  m_DefaultUser :: "32 word"
  m_MaxCachedSteps :: nat
  m_LookAheadSteps :: nat
  m_IOQueue :: "job list"
  m_Done :: bool
  m_bAutoLoadSave :: bool
  m_CommandCounter :: "64 word"
  heap :: "history_entry list"
  files :: filesystem
  database :: 'db

text \<open>The member initialisers of \<^verbatim>\<open>class system\<close>, over a file system and the caller's data.\<close>

definition new_system :: "filesystem \<Rightarrow> 'db \<Rightarrow> ('db, 'p) system" where
  "new_system fs db =
     \<lparr>m_UndoIndex = 0, m_History = [], m_LRU = [], m_Commands = (\<lambda>_. None), m_UndoPath = [],
      m_DefaultUser = 1, m_MaxCachedSteps = 50, m_LookAheadSteps = 5, m_IOQueue = [],
      m_Done = True, m_bAutoLoadSave = False, m_CommandCounter = 0,
      heap = [], files = fs, database = db\<rparr>"

text \<open>\<^verbatim>\<open>system::RegisterCommand\<close>, called by the constructor of \<^verbatim>\<open>command_base\<close>.\<close>

definition RegisterCommand ::
  "('db, 'p) command_base \<Rightarrow> string \<Rightarrow> ('db, 'p) system \<Rightarrow> ('db, 'p) system" where
  "RegisterCommand Cmd Name s = s\<lparr>m_Commands := (m_Commands s)(Name \<mapsto> Cmd)\<rparr>"

definition PushJob :: "job \<Rightarrow> ('db, 'p) system \<Rightarrow> ('db, 'p) system" where
  "PushJob Job s = s\<lparr>m_IOQueue := m_IOQueue s @ [Job]\<rparr>"

subsection \<open>Jobs\<close>

definition save_to_disk_Execute :: "entry_ref \<Rightarrow> ('db, 'p) system \<Rightarrow> ('db, 'p) system" where
  "save_to_disk_Execute a s =
     (let Entry = heap s ! a
      in if \<not> m_bHasBeenSaved Entry then
           (let (Ok, fs) = Save Entry (m_UndoPath s) (files s)
            in s\<lparr>heap := (if Ok then (heap s)[a := Entry\<lparr>m_bHasBeenSaved := True\<rparr>] else heap s),
                 files := fs\<rparr>)
         else s)"

definition delete_entries_Execute :: "64 word list \<Rightarrow> ('db, 'p) system \<Rightarrow> ('db, 'p) system" where
  "delete_entries_Execute TimeStamps s =
     s\<lparr>files := fold (\<lambda>TimeStamp. remove_file (UndoStep_path (m_UndoPath s) TimeStamp))
                  TimeStamps (files s)\<rparr>"

definition warmup_cache_Execute :: "entry_ref \<Rightarrow> ('db, 'p) system \<Rightarrow> ('db, 'p) system" where
  "warmup_cache_Execute a s =
     (let Entry = heap s ! a
      in if m_CacheUndoData Entry = []
         then s\<lparr>heap := (heap s)[a := snd (Load Entry (m_UndoPath s) False True (files s))]\<rparr>
         else s)"

definition load_entries_Execute :: "entry_ref \<Rightarrow> ('db, 'p) system \<Rightarrow> ('db, 'p) system" where
  "load_entries_Execute a s =
     s\<lparr>heap := (heap s)[a := snd (Load (heap s ! a) (m_UndoPath s) True False (files s))]\<rparr>"

fun job_Execute :: "job \<Rightarrow> ('db, 'p) system \<Rightarrow> ('db, 'p) system" where
  "job_Execute (save_to_disk a) s = save_to_disk_Execute a s"
| "job_Execute (delete_entries TimeStamps) s = delete_entries_Execute TimeStamps s"
| "job_Execute (warmup_cache a) s = warmup_cache_Execute a s"
| "job_Execute (load_entries a) s = load_entries_Execute a s"

text \<open>
  \<^verbatim>\<open>system::IOWorker\<close>, one job at a time. The four workers pop the queue in order
  and run their jobs side by side, so the job that completes next is one of the first
  four that are pending: \<open>IOWorker k\<close> completes the \<open>k\<close>-th pending job (\<open>k = 0\<close> is
  the oldest) and does nothing when there is no such job.
\<close>

definition IOWorker :: "nat \<Rightarrow> ('db, 'p) system \<Rightarrow> ('db, 'p) system" where
  "IOWorker k s =
     (if k < 4 \<and> k < length (m_IOQueue s)
      then job_Execute (m_IOQueue s ! k)
             (s\<lparr>m_IOQueue := take k (m_IOQueue s) @ drop (Suc k) (m_IOQueue s)\<rparr>)
      else s)"

text \<open>
  \<^verbatim>\<open>system::SynJobQueue\<close> returns once the queue is empty. The model runs the pending
  jobs in queue order; that a job popped last may still be running when the source
  returns is not modelled.
\<close>

definition SynJobQueue :: "('db, 'p) system \<Rightarrow> ('db, 'p) system" where
  "SynJobQueue s =
     (if m_UndoPath s = [] then s else fold job_Execute (m_IOQueue s) (s\<lparr>m_IOQueue := []\<rparr>))"

subsection \<open>The LRU window\<close>

text \<open>The \<^verbatim>\<open>while\<close> loop of \<^verbatim>\<open>system::UpdateLRU\<close>, on the window and the store.\<close>

fun evict_LRU ::
  "nat \<Rightarrow> entry_ref list \<Rightarrow> history_entry list \<Rightarrow> entry_ref list \<times> history_entry list" where
  "evict_LRU SizeEstimation [] h = ([], h)"
| "evict_LRU SizeEstimation (Oldest # rest) h =
     (if SizeEstimation < length (Oldest # rest)
      then evict_LRU SizeEstimation rest
             (if m_bHasBeenSaved (h ! Oldest)
              then h[Oldest := (h ! Oldest)\<lparr>m_CacheUndoData := []\<rparr>] else h)
      else (Oldest # rest, h))"

definition cache_empty :: "('db, 'p) system \<Rightarrow> nat \<Rightarrow> bool" where
  "cache_empty s k = (m_CacheUndoData (heap s ! (m_History s ! k)) = [])"

text \<open>The body of both branches of the look-ahead loop, for the entry at position \<open>k\<close>.\<close>

definition warm_up :: "nat \<Rightarrow> ('db, 'p) system \<Rightarrow> ('db, 'p) system" where
  "warm_up k s =
     (PushJob (warmup_cache (m_History s ! k)) s)\<lparr>m_LRU := m_LRU s @ [m_History s ! k]\<rparr>"

text \<open>One iteration of the \<^verbatim>\<open>for\<close> loop of \<^verbatim>\<open>system::UpdateLRU\<close>.\<close>

definition look_ahead_body :: "nat \<Rightarrow> ('db, 'p) system \<Rightarrow> ('db, 'p) system" where
  "look_ahead_body i s =
     (let s1 = (if i \<le> m_UndoIndex s \<and> cache_empty s (m_UndoIndex s - i)
                then warm_up (m_UndoIndex s - i) s else s)
      in if m_UndoIndex s1 + i < length (m_History s1) \<and> cache_empty s1 (m_UndoIndex s1 + i)
         then warm_up (m_UndoIndex s1 + i) s1 else s1)"

text \<open>
  The \<^verbatim>\<open>for\<close> loop over the values of \<open>i\<close> that are left; the loop's second
  condition is tested before each iteration. \<^verbatim>\<open>m_History[m_UndoIndex - i]\<close> outside
  the history is the branch \<open>History_Out_Of_Range\<close>.
\<close>

fun look_ahead :: "nat list \<Rightarrow> ('db, 'p) system \<Rightarrow> error + ('db, 'p) system" where
  "look_ahead [] s = Inr s"
| "look_ahead (i # rest) s =
     (if length (m_LRU s) < m_MaxCachedSteps s then
        (if i \<le> m_UndoIndex s \<and> length (m_History s) \<le> m_UndoIndex s - i
         then Inl History_Out_Of_Range
         else look_ahead rest (look_ahead_body i s))
      else Inr s)"

definition UpdateLRU :: "('db, 'p) system \<Rightarrow> error + ('db, 'p) system" where
  "UpdateLRU s =
     (if m_History s = [] then Inr s
      else if \<not> m_LookAheadSteps s * 2 + 1 < m_MaxCachedSteps s then Inl Assert_MaxCachedSteps
      else
        (let SizeEstimation = m_MaxCachedSteps s - m_LookAheadSteps s * 2 - 1;
             (lru, h) = evict_LRU SizeEstimation (m_LRU s) (heap s)
         in look_ahead [1..<Suc (m_LookAheadSteps s)] (s\<lparr>m_LRU := lru, heap := h\<rparr>)))"

subsection \<open>Execute, Undo and Redo\<close>

text \<open>
  \<^verbatim>\<open>system::PruneHistory\<close>. In the in-memory branch the path of each file is formed
  from the empty directory name, as the source does it.
\<close>

definition PruneHistory :: "('db, 'p) system \<Rightarrow> ('db, 'p) system" where
  "PruneHistory s =
     (if length (m_History s) \<le> m_UndoIndex s then s
      else
        (let TimeStamps = map (\<lambda>a. m_TimeStamp (heap s ! a)) (drop (m_UndoIndex s) (m_History s));
             s1 = (if m_UndoPath s = []
                   then s\<lparr>files := fold (\<lambda>TimeStamp. remove_file (UndoStep_path (m_UndoPath s) TimeStamp))
                                      TimeStamps (files s)\<rparr>
                   else PushJob (delete_entries TimeStamps) s)
         in s1\<lparr>m_History := take (m_UndoIndex s) (m_History s)\<rparr>))"

text \<open>
  The end of \<^verbatim>\<open>system::Execute(command_base&, std::string_view, int)\<close>, from
  \<^verbatim>\<open>PruneHistory()\<close> on: what the call does with the new entry once the command's
  \<^verbatim>\<open>Redo\<close> has succeeded.
\<close>

definition Execute_record ::
  "history_entry \<Rightarrow> ('db, 'p) system \<Rightarrow> error + ('db, 'p) system" where
  "Execute_record Entry s =
     (let s3 = PruneHistory s;
          a = length (heap s3);
          s4 = s3\<lparr>heap := heap s3 @ [Entry], m_History := m_History s3 @ [a],
                 m_UndoIndex := m_UndoIndex s3 + 1\<rparr>
      in if m_UndoPath s4 \<noteq> []
         then UpdateLRU ((PushJob (save_to_disk a) s4)\<lparr>m_LRU := m_LRU s4 @ [a]\<rparr>)
         else Inr s4)"

text \<open>
  The entry that \<^verbatim>\<open>system::Execute(command_base&, std::string_view, int)\<close> builds
  before it calls the command's \<^verbatim>\<open>Redo\<close>. The reading of
  \<^verbatim>\<open>std::chrono::system_clock\<close> in milliseconds is the parameter \<open>now\<close>; the sum
  that forms the timestamp is taken in 64 bits.
\<close>

definition Execute_entry ::
  "64 word \<Rightarrow> ('db, 'p) command_base \<Rightarrow> string \<Rightarrow> 32 word \<Rightarrow> ('db, 'p) system
     \<Rightarrow> history_entry" where
  "Execute_entry now Cmd cmd_str UserID s =
     (let User = (if UserID = - 1 then m_DefaultUser s else UserID);
          Entry0 = new_history_entry
                     \<lparr>m_UserID := User,
                      m_TimeStamp := now * 1000 + m_CommandCounter s,
                      m_CommandString := cmd_str\<rparr>
      in m_Entry (undo_file_Write (make_undo_file Entry0)
                    (cmd_BackupCurrenState Cmd (database s))))"

text \<open>
  \<^verbatim>\<open>system::Execute(command_base&, std::string_view, int)\<close>. The result is the
  returned string and the engine afterwards.
\<close>

definition ExecuteCmd ::
  "64 word \<Rightarrow> ('db, 'p) command_base \<Rightarrow> string \<Rightarrow> 32 word \<Rightarrow> ('db, 'p) system
     \<Rightarrow> error + (string \<times> ('db, 'p) system)" where
  "ExecuteCmd now Cmd cmd_str UserID s =
     (if m_Done s then Inl Assert_Done
      else
        (let (err, p) = cmd_Parse Cmd cmd_str
         in if err \<noteq> [] then Inr (err, s)
            else if cmd_hasHelp Cmd p then Inr ([], s)
            else
              (let Entry = Execute_entry now Cmd cmd_str UserID s;
                   s1 = s\<lparr>m_CommandCounter := m_CommandCounter s + 1\<rparr>;
                   (Err, db) = cmd_Redo Cmd p (database s1);
                   s2 = s1\<lparr>database := db\<rparr>
               in if Err \<noteq> [] then Inr (Err, s2)
                  else
                    (case Execute_record Entry s2 of
                       Inl e \<Rightarrow> Inl e
                     | Inr s5 \<Rightarrow> Inr ([], s5)))))"

text \<open>\<^verbatim>\<open>system::Execute(std::string_view, int)\<close>, the dispatch form.\<close>

definition Execute ::
  "64 word \<Rightarrow> string \<Rightarrow> 32 word \<Rightarrow> ('db, 'p) system \<Rightarrow> error + (string \<times> ('db, 'p) system)" where
  "Execute now cmd_str UserID s =
     (if m_Done s then Inl Assert_Done
      else
        (case m_Commands s (getCommandName cmd_str) of
           Some Cmd \<Rightarrow> ExecuteCmd now Cmd cmd_str UserID s
         | None \<Rightarrow> Inr (''Unable find the command: '' @ getCommandName cmd_str, s)))"

text \<open>
  The block \<^verbatim>\<open>// Force a sync if we need to\<close> of \<^verbatim>\<open>system::Undo\<close>: the
  warm-up job runs on the caller's thread, between two assertions.
\<close>

definition force_sync :: "entry_ref \<Rightarrow> ('db, 'p) system \<Rightarrow> error + ('db, 'p) system" where
  "force_sync a s =
     (if m_CacheUndoData (heap s ! a) = [] then
        (if m_UndoPath s = [] then Inl Assert_UndoPath
         else
           (let s2 = warmup_cache_Execute a s
            in if m_CacheUndoData (heap s2 ! a) = [] then Inl Assert_CacheUndoData
               else Inr s2))
      else Inr s)"

text \<open>
  \<^verbatim>\<open>system::Undo\<close>. \<^verbatim>\<open>m_Commands[name]\<close> of an unregistered name yields a null
  pointer, which the source dereferences: the branch \<open>Null_Command\<close>.
\<close>

definition Undo :: "('db, 'p) system \<Rightarrow> error + ('db, 'p) system" where
  "Undo s =
     (if m_Done s then Inl Assert_Done
      else if m_UndoIndex s = 0 then Inr s
      else
        (let s1 = s\<lparr>m_UndoIndex := m_UndoIndex s - 1\<rparr>
         in if length (m_History s1) \<le> m_UndoIndex s1 then Inl History_Out_Of_Range
            else
              (let a = m_History s1 ! m_UndoIndex s1;
                   CmdName = getCommandName (m_CommandString (heap s1 ! a))
               in case m_Commands s1 CmdName of
                    None \<Rightarrow> Inl Null_Command
                  | Some Cmd \<Rightarrow>
                      (case force_sync a s1 of
                         Inl e \<Rightarrow> Inl e
                       | Inr s2 \<Rightarrow>
                           (case cmd_Undo Cmd (make_undo_file (heap s2 ! a)) (database s2) of
                              None \<Rightarrow> Inl Assert_Read
                            | Some db \<Rightarrow>
                                (let s3 = s2\<lparr>database := db\<rparr>
                                 in if m_UndoPath s3 \<noteq> []
                                    then UpdateLRU (s3\<lparr>m_LRU := m_LRU s3 @ [a]\<rparr>)
                                    else Inr s3))))))"

text \<open>\<^verbatim>\<open>system::Redo\<close>.\<close>

definition Redo :: "('db, 'p) system \<Rightarrow> error + ('db, 'p) system" where
  "Redo s =
     (if m_Done s then Inl Assert_Done
      else if length (m_History s) \<le> m_UndoIndex s then Inr s
      else
        (let a = m_History s ! m_UndoIndex s;
             LastCommand = heap s ! a
         in case m_Commands s (getCommandName (m_CommandString LastCommand)) of
              None \<Rightarrow> Inl Null_Command
            | Some Cmd \<Rightarrow>
                (let (Err1, p) = cmd_Parse Cmd (m_CommandString LastCommand)
                 in if Err1 \<noteq> [] then Inr s
                    else
                      (let (Err2, db) = cmd_Redo Cmd p (database s);
                           s1 = s\<lparr>database := db\<rparr>
                       in if Err2 \<noteq> [] then Inr s1
                          else
                            (case (if m_UndoPath s1 \<noteq> []
                                   then UpdateLRU (s1\<lparr>m_LRU := m_LRU s1 @ [a]\<rparr>)
                                   else Inr s1) of
                               Inl e \<Rightarrow> Inl e
                             | Inr s2 \<Rightarrow> Inr (s2\<lparr>m_UndoIndex := m_UndoIndex s2 + 1\<rparr>))))))"

subsection \<open>The index file\<close>

text \<open>\<^verbatim>\<open>system::SaveTimestamps\<close>: the count as \<^verbatim>\<open>uint32_t\<close>, then that many timestamps.\<close>

definition SaveTimestamps ::
  "string \<Rightarrow> ('db, 'p) system \<Rightarrow> error + (string \<times> ('db, 'p) system)" where
  "SaveTimestamps FilePath s =
     (if m_Done s then Inl Assert_Done
      else if m_UndoPath s = [] then Inl Assert_UndoPath
      else
        (let Path = (if FilePath = [] then UndoTimestamps_path (m_UndoPath s) else FilePath);
             Count = (of_nat (m_UndoIndex s) :: 32 word)
         in if length (m_History s) < unat Count then Inl History_Out_Of_Range
            else Inr ([], s\<lparr>files := (files s)(Path \<mapsto>
                      le_bytes 4 Count
                      @ concat (map (\<lambda>a. le_bytes 8 (m_TimeStamp (heap s ! a)))
                                  (take (unat Count) (m_History s))))\<rparr>)))"

text \<open>The body of the last loop of \<^verbatim>\<open>system::LoadTimestamps\<close>.\<close>

definition cache_latest :: "nat \<Rightarrow> ('db, 'p) system \<Rightarrow> ('db, 'p) system" where
  "cache_latest i s =
     (let a = m_History s ! i;
          s1 = s\<lparr>m_LRU := m_LRU s @ [a]\<rparr>
      in if m_CacheUndoData (heap s1 ! a) = [] \<and> m_bHasBeenSaved (heap s1 ! a)
         then PushJob (warmup_cache a) s1 else s1)"

definition strerror_ENOENT :: string where
  "strerror_ENOENT = ''No such file or directory''"

text \<open>\<^verbatim>\<open>system::LoadTimestamps\<close>.\<close>

definition LoadTimestamps ::
  "string \<Rightarrow> ('db, 'p) system \<Rightarrow> error + (string \<times> ('db, 'p) system)" where
  "LoadTimestamps FilePath s =
     (if m_Done s then Inl Assert_Done
      else if m_UndoPath s = [] then Inl Assert_UndoPath
      else
        (let Path = (if FilePath = [] then UndoTimestamps_path (m_UndoPath s) else FilePath);
             s1 = (SynJobQueue s)\<lparr>m_History := [], m_LRU := [], m_UndoIndex := 0\<rparr>
         in case files s1 Path of
              None \<Rightarrow> Inr (''Error: '' @ strerror_ENOENT, s1)
            | Some File \<Rightarrow>
                (let Count = unat (le_word (take 4 File) :: 32 word);
                     Entries = map (\<lambda>i. new_history_entry
                                      \<lparr>m_TimeStamp := le_word (take 8 (drop (4 + 8 * i) File)),
                                       m_bHasBeenSaved := True\<rparr>) [0..<Count];
                     refs = [length (heap s1)..<length (heap s1) + Count];
                     s2 = s1\<lparr>heap := heap s1 @ Entries, m_History := refs,
                            m_IOQueue := m_IOQueue s1 @ map load_entries refs,
                            m_UndoIndex := Count\<rparr>;
                     s3 = SynJobQueue s2
                 in Inr ([], fold cache_latest
                               [m_UndoIndex s3 - m_MaxCachedSteps s3..<m_UndoIndex s3] s3))))"

text \<open>\<^verbatim>\<open>system::Init\<close>.\<close>

definition Init ::
  "string \<Rightarrow> bool \<Rightarrow> ('db, 'p) system \<Rightarrow> error + (string \<times> ('db, 'p) system)" where
  "Init UndoPath bAutoLoadSave s =
     (let s1 = s\<lparr>m_UndoPath := UndoPath, m_bAutoLoadSave := bAutoLoadSave, m_Done := False\<rparr>
      in if UndoPath \<noteq> [] then
           (if bAutoLoadSave \<and> files s1 (UndoTimestamps_path UndoPath) \<noteq> None
            then LoadTimestamps (UndoTimestamps_path UndoPath) s1
            else Inr ([], s1))
         else if bAutoLoadSave then Inl Assert_AutoLoadSave
         else Inr ([], s1))"

subsection \<open>Runs of the engine\<close>

text \<open>
  What the owner thread and the workers do to an engine, one step at a time: the public
  operations, the registration of a command, and a worker completing a job.
\<close>

datatype ('db, 'p) event =
    Ev_Init string bool
  | Ev_RegisterCommand "('db, 'p) command_base" string
  | Ev_Execute "64 word" string "32 word"
  | Ev_ExecuteCmd "64 word" "('db, 'p) command_base" string "32 word"
  | Ev_Undo
  | Ev_Redo
  | Ev_SaveTimestamps string
  | Ev_LoadTimestamps string
  | Ev_IOWorker nat

definition drop_string ::
  "error + (string \<times> ('db, 'p) system) \<Rightarrow> error + ('db, 'p) system" where
  "drop_string r = (case r of Inl e \<Rightarrow> Inl e | Inr (msg, s) \<Rightarrow> Inr s)"

fun step :: "('db, 'p) event \<Rightarrow> ('db, 'p) system \<Rightarrow> error + ('db, 'p) system" where
  "step (Ev_Init UndoPath bAutoLoadSave) s = drop_string (Init UndoPath bAutoLoadSave s)"
| "step (Ev_RegisterCommand Cmd Name) s = Inr (RegisterCommand Cmd Name s)"
| "step (Ev_Execute now cmd_str UserID) s = drop_string (Execute now cmd_str UserID s)"
| "step (Ev_ExecuteCmd now Cmd cmd_str UserID) s = drop_string (ExecuteCmd now Cmd cmd_str UserID s)"
| "step Ev_Undo s = Undo s"
| "step Ev_Redo s = Redo s"
| "step (Ev_SaveTimestamps FilePath) s = drop_string (SaveTimestamps FilePath s)"
| "step (Ev_LoadTimestamps FilePath) s = drop_string (LoadTimestamps FilePath s)"
| "step (Ev_IOWorker k) s = Inr (IOWorker k s)"

fun run :: "('db, 'p) event list \<Rightarrow> ('db, 'p) system \<Rightarrow> error + ('db, 'p) system" where
  "run [] s = Inr s"
| "run (e # es) s = (case step e s of Inl err \<Rightarrow> Inl err | Inr s1 \<Rightarrow> run es s1)"

section \<open>The example command\<close>

text \<open>
  \<^verbatim>\<open>xundo::example::fake_dbase\<close> and \<^verbatim>\<open>xundo::example::MoveCursor\<close>, the command
  the repository tests the engine with.
\<close>

record fake_dbase =
  m_X :: "32 word"
  m_Y :: "32 word"

text \<open>
  Modelled from the spec: the command-line parser \<^verbatim>\<open>xcmdline::parser\<close>, which the
  repository fetches as a dependency and which is "assumed available as a parser that,
  given a command string and a schema, yields typed arguments or an error". The stand-in
  splits the string at spaces, skips the command's name, and knows the options that
  \<^verbatim>\<open>RegisterCommand\<close> (\<open>h\<close>, no argument) and \<^verbatim>\<open>MoveCursor::RegisterArguments\<close>
  (\<open>T\<close>, two arguments) add.
\<close>

record parsed =
  opt_h :: bool
  opt_T :: "(string \<times> string) option"

fun tokens :: "string \<Rightarrow> string \<Rightarrow> string list" where
  "tokens acc [] = (if acc = [] then [] else [rev acc])"
| "tokens acc (c # cs) =
     (if c = CHR '' '' then (if acc = [] then tokens [] cs else rev acc # tokens [] cs)
      else tokens (c # acc) cs)"

fun parse_options :: "string list \<Rightarrow> parsed \<Rightarrow> string \<times> parsed" where
  "parse_options [] P = ([], P)"
| "parse_options (t # ts) P =
     (if t = ''-h'' \<or> t = ''--h'' then parse_options ts (P\<lparr>opt_h := True\<rparr>)
      else if t = ''-T'' then
        (case ts of
           a # b # rest \<Rightarrow> parse_options rest (P\<lparr>opt_T := Some (a, b)\<rparr>)
         | _ \<Rightarrow> (''Option T expects 2 arguments'', P))
      else (''Unknown option: '' @ t, P))"

definition xcmdline_Parse :: "string \<Rightarrow> string \<times> parsed" where
  "xcmdline_Parse cmd_str = parse_options (tl (tokens [] cmd_str)) \<lparr>opt_h = False, opt_T = None\<rparr>"

fun parse_digits :: "nat \<Rightarrow> string \<Rightarrow> nat option" where
  "parse_digits n [] = Some n"
| "parse_digits n (c # cs) =
     (if 48 \<le> (of_char c :: nat) \<and> (of_char c :: nat) \<le> 57
      then parse_digits (10 * n + (of_char c - 48)) cs else None)"

text \<open>\<^verbatim>\<open>getOptionArgAs<int64_t>\<close>: \<open>None\<close> stands for the parser's error.\<close>

definition getOptionArgAs_int64 :: "string \<Rightarrow> 64 word option" where
  "getOptionArgAs_int64 t =
     (case t of
        [] \<Rightarrow> None
      | c # cs \<Rightarrow>
          if c = CHR ''-'' then (if cs = [] then None else map_option (\<lambda>n. - of_nat n) (parse_digits 0 cs))
          else map_option of_nat (parse_digits 0 t))"

definition MoveCursor_Redo :: "parsed \<Rightarrow> fake_dbase \<Rightarrow> string \<times> fake_dbase" where
  "MoveCursor_Redo P DB =
     (case opt_T P of
        Some (a, b) \<Rightarrow>
          (case getOptionArgAs_int64 a of
             None \<Rightarrow> (''Failed to get parameter X, '' @ a, DB)
           | Some x \<Rightarrow>
               (case getOptionArgAs_int64 b of
                  None \<Rightarrow> (''Failed to get parameter Y, '' @ b, DB)
                | Some y \<Rightarrow> ([], DB\<lparr>m_X := ucast x, m_Y := ucast y\<rparr>)))
      | None \<Rightarrow> (''Expecting -T x y but found nothing'', DB))"

definition MoveCursor_Undo :: "undo_file \<Rightarrow> fake_dbase \<Rightarrow> fake_dbase option" where
  "MoveCursor_Undo File DB =
     (case undo_file_Read File 8 of
        None \<Rightarrow> None
      | Some (UndoData, File1) \<Rightarrow>
          Some (DB\<lparr>m_X := le_word (take 4 UndoData), m_Y := le_word (drop 4 UndoData)\<rparr>))"

definition MoveCursor_BackupCurrenState :: "fake_dbase \<Rightarrow> byte list" where
  "MoveCursor_BackupCurrenState DB = le_bytes 4 (m_X DB) @ le_bytes 4 (m_Y DB)"

definition MoveCursor :: "(fake_dbase, parsed) command_base" where
  "MoveCursor =
     \<lparr>cmd_Parse = xcmdline_Parse, cmd_hasHelp = opt_h, cmd_Redo = MoveCursor_Redo,
      cmd_Undo = MoveCursor_Undo, cmd_BackupCurrenState = MoveCursor_BackupCurrenState\<rparr>"

text \<open>
  An engine in memory and an engine with the directory \<^verbatim>\<open>x64/Undo\<close>, both with
  \<^verbatim>\<open>MoveCursor\<close> registered under its name \<^verbatim>\<open>Move\<close>, on an empty file system,
  as \<^verbatim>\<open>xundo::example::StressTest\<close> sets its first engine up.
\<close>

definition memory_engine :: "(fake_dbase, parsed) system" where
  "memory_engine =
     (RegisterCommand MoveCursor ''Move'' (new_system (\<lambda>_. None) \<lparr>m_X = 0, m_Y = 0\<rparr>))
       \<lparr>m_Done := False\<rparr>"


section \<open>Properties of entries, commands and runs\<close>







text \<open>
  The positions of the history that iteration \<open>i\<close> of the look-ahead loop warms up:
  \<open>m_UndoIndex - i\<close> and \<open>m_UndoIndex + i\<close>, each when it is in the history and the
  entry there holds no payload.
\<close>

definition look_ahead_positions :: "('db, 'p) system \<Rightarrow> nat \<Rightarrow> nat list" where
  "look_ahead_positions s i =
     (if i \<le> m_UndoIndex s \<and> cache_empty s (m_UndoIndex s - i) then [m_UndoIndex s - i] else [])
     @ (if m_UndoIndex s + i < length (m_History s) \<and> cache_empty s (m_UndoIndex s + i)
        then [m_UndoIndex s + i] else [])"


text \<open>The engine after a run; the run itself tells whether it ended with an error.\<close>

definition state_after :: "('db, 'p) event list \<Rightarrow> ('db, 'p) system \<Rightarrow> ('db, 'p) system" where
  "state_after evs s = (case run evs s of Inr s1 \<Rightarrow> s1 | Inl e \<Rightarrow> s)"

section \<open>Basic facts\<close>

lemma backup_entry [simp]:
  "m_Entry (undo_file_Write (make_undo_file E) Data) = E\<lparr>m_CacheUndoData := Data @ m_CacheUndoData E\<rparr>"
  by (simp add: undo_file_Write_def make_undo_file_def)

lemma warm_up_fields [simp]:
  "m_UndoIndex (warm_up k s) = m_UndoIndex s"
  "m_History (warm_up k s) = m_History s"
  "m_Commands (warm_up k s) = m_Commands s"
  "m_UndoPath (warm_up k s) = m_UndoPath s"
  "m_DefaultUser (warm_up k s) = m_DefaultUser s"
  "m_MaxCachedSteps (warm_up k s) = m_MaxCachedSteps s"
  "m_LookAheadSteps (warm_up k s) = m_LookAheadSteps s"
  "m_Done (warm_up k s) = m_Done s"
  "m_bAutoLoadSave (warm_up k s) = m_bAutoLoadSave s"
  "m_CommandCounter (warm_up k s) = m_CommandCounter s"
  "heap (warm_up k s) = heap s"
  "files (warm_up k s) = files s"
  "database (warm_up k s) = database s"
  by (simp_all add: warm_up_def PushJob_def)

lemma cache_empty_warm_up [simp]: "cache_empty (warm_up k s) j = cache_empty s j"
  by (simp add: cache_empty_def)

lemma look_ahead_body_fields [simp]:
  "m_UndoIndex (look_ahead_body i s) = m_UndoIndex s"
  "m_History (look_ahead_body i s) = m_History s"
  "m_Commands (look_ahead_body i s) = m_Commands s"
  "m_UndoPath (look_ahead_body i s) = m_UndoPath s"
  "m_DefaultUser (look_ahead_body i s) = m_DefaultUser s"
  "m_MaxCachedSteps (look_ahead_body i s) = m_MaxCachedSteps s"
  "m_LookAheadSteps (look_ahead_body i s) = m_LookAheadSteps s"
  "m_Done (look_ahead_body i s) = m_Done s"
  "m_bAutoLoadSave (look_ahead_body i s) = m_bAutoLoadSave s"
  "m_CommandCounter (look_ahead_body i s) = m_CommandCounter s"
  "heap (look_ahead_body i s) = heap s"
  "files (look_ahead_body i s) = files s"
  "database (look_ahead_body i s) = database s"
  by (simp_all add: look_ahead_body_def Let_def)

lemma look_ahead_fields:
  "look_ahead is s = Inr s' \<Longrightarrow>
     m_UndoIndex s' = m_UndoIndex s \<and> m_History s' = m_History s \<and>
     m_Commands s' = m_Commands s \<and> m_UndoPath s' = m_UndoPath s \<and>
     m_DefaultUser s' = m_DefaultUser s \<and> m_MaxCachedSteps s' = m_MaxCachedSteps s \<and>
     m_LookAheadSteps s' = m_LookAheadSteps s \<and> m_Done s' = m_Done s \<and>
     m_bAutoLoadSave s' = m_bAutoLoadSave s \<and> m_CommandCounter s' = m_CommandCounter s \<and>
     heap s' = heap s \<and> files s' = files s \<and> database s' = database s"
proof (induction "is" arbitrary: s)
  case Nil
  then show ?case by simp
next
  case (Cons i rest)
  show ?case
  proof (cases "length (m_LRU s) < m_MaxCachedSteps s")
    case False
    with Cons.prems show ?thesis by simp
  next
    case True
    with Cons.prems have "look_ahead rest (look_ahead_body i s) = Inr s'"
      by (simp split: if_splits)
    from Cons.IH [OF this] show ?thesis by simp
  qed
qed

lemma UpdateLRU_fields:
  assumes "UpdateLRU s = Inr s'"
  shows "m_UndoIndex s' = m_UndoIndex s \<and> m_History s' = m_History s \<and>
     m_Commands s' = m_Commands s \<and> m_UndoPath s' = m_UndoPath s \<and>
     m_DefaultUser s' = m_DefaultUser s \<and> m_MaxCachedSteps s' = m_MaxCachedSteps s \<and>
     m_LookAheadSteps s' = m_LookAheadSteps s \<and> m_Done s' = m_Done s \<and>
     m_bAutoLoadSave s' = m_bAutoLoadSave s \<and> m_CommandCounter s' = m_CommandCounter s \<and>
     files s' = files s \<and> database s' = database s"
proof (cases "m_History s = []")
  case True
  with assms show ?thesis by (simp add: UpdateLRU_def)
next
  case False
  obtain lru h where e: "evict_LRU (m_MaxCachedSteps s - m_LookAheadSteps s * 2 - 1) (m_LRU s) (heap s) = (lru, h)"
    by (cases "evict_LRU (m_MaxCachedSteps s - m_LookAheadSteps s * 2 - 1) (m_LRU s) (heap s)")
  from assms False e have "look_ahead [1..<Suc (m_LookAheadSteps s)] (s\<lparr>m_LRU := lru, heap := h\<rparr>) = Inr s'"
    by (simp add: UpdateLRU_def Let_def split: if_splits)
  from look_ahead_fields [OF this] show ?thesis by simp
qed

lemma look_ahead_error:
  "look_ahead is s = Inl e \<Longrightarrow> e = History_Out_Of_Range"
  by (induction "is" arbitrary: s) (auto split: if_splits)

lemma UpdateLRU_error:
  "UpdateLRU s = Inl e \<Longrightarrow> e = History_Out_Of_Range \<or> e = Assert_MaxCachedSteps"
  by (auto simp: UpdateLRU_def Let_def split: if_splits prod.splits dest: look_ahead_error)

lemma memory_engine_fields [simp]:
  "m_Done memory_engine = False"
  "m_UndoPath memory_engine = []"
  "m_History memory_engine = []"
  "m_UndoIndex memory_engine = 0"
  "m_Commands memory_engine = (\<lambda>_. None)(''Move'' \<mapsto> MoveCursor)"
  "database memory_engine = \<lparr>m_X = 0, m_Y = 0\<rparr>"
  "heap memory_engine = []"
  "m_CommandCounter memory_engine = 0"
  "m_DefaultUser memory_engine = 1"
  by (simp_all add: memory_engine_def new_system_def RegisterCommand_def)

lemma PushJob_fields [simp]:
  "m_UndoIndex (PushJob j s) = m_UndoIndex s"
  "m_History (PushJob j s) = m_History s"
  "m_LRU (PushJob j s) = m_LRU s"
  "m_IOQueue (PushJob j s) = m_IOQueue s @ [j]"
  "m_Commands (PushJob j s) = m_Commands s"
  "m_UndoPath (PushJob j s) = m_UndoPath s"
  "m_DefaultUser (PushJob j s) = m_DefaultUser s"
  "m_MaxCachedSteps (PushJob j s) = m_MaxCachedSteps s"
  "m_LookAheadSteps (PushJob j s) = m_LookAheadSteps s"
  "m_Done (PushJob j s) = m_Done s"
  "m_bAutoLoadSave (PushJob j s) = m_bAutoLoadSave s"
  "m_CommandCounter (PushJob j s) = m_CommandCounter s"
  "heap (PushJob j s) = heap s"
  "files (PushJob j s) = files s"
  "database (PushJob j s) = database s"
  by (simp_all add: PushJob_def)

lemma PruneHistory_fields [simp]:
  "m_UndoIndex (PruneHistory s) = m_UndoIndex s"
  "m_History (PruneHistory s) = take (m_UndoIndex s) (m_History s)"
  "m_LRU (PruneHistory s) = m_LRU s"
  "m_Commands (PruneHistory s) = m_Commands s"
  "m_UndoPath (PruneHistory s) = m_UndoPath s"
  "m_DefaultUser (PruneHistory s) = m_DefaultUser s"
  "m_MaxCachedSteps (PruneHistory s) = m_MaxCachedSteps s"
  "m_LookAheadSteps (PruneHistory s) = m_LookAheadSteps s"
  "m_Done (PruneHistory s) = m_Done s"
  "m_bAutoLoadSave (PruneHistory s) = m_bAutoLoadSave s"
  "m_CommandCounter (PruneHistory s) = m_CommandCounter s"
  "heap (PruneHistory s) = heap s"
  "database (PruneHistory s) = database s"
  by (simp_all add: PruneHistory_def Let_def)

lemma Execute_record_fields:
  assumes "Execute_record Entry s = Inr s'"
  shows "m_UndoIndex s' = m_UndoIndex s + 1 \<and>
     m_History s' = take (m_UndoIndex s) (m_History s) @ [length (heap s)] \<and>
     m_Commands s' = m_Commands s \<and> m_UndoPath s' = m_UndoPath s \<and>
     m_DefaultUser s' = m_DefaultUser s \<and> m_MaxCachedSteps s' = m_MaxCachedSteps s \<and>
     m_LookAheadSteps s' = m_LookAheadSteps s \<and> m_Done s' = m_Done s \<and>
     m_bAutoLoadSave s' = m_bAutoLoadSave s \<and> m_CommandCounter s' = m_CommandCounter s \<and>
     database s' = database s"
proof (cases "m_UndoPath s = []")
  case True
  with assms show ?thesis by (auto simp: Execute_record_def Let_def)
next
  case False
  with assms have "UpdateLRU ((PushJob (save_to_disk (length (heap s)))
      ((PruneHistory s)\<lparr>heap := heap s @ [Entry],
         m_History := take (m_UndoIndex s) (m_History s) @ [length (heap s)],
         m_UndoIndex := m_UndoIndex s + 1\<rparr>))
      \<lparr>m_LRU := m_LRU s @ [length (heap s)]\<rparr>) = Inr s'"
    by (simp add: Execute_record_def Let_def)
  from UpdateLRU_fields [OF this] show ?thesis by simp
qed

lemma Execute_entry_fields [simp]:
  "m_UserID (Execute_entry now Cmd cmd_str UserID s)
     = (if UserID = - 1 then m_DefaultUser s else UserID)"
  "m_TimeStamp (Execute_entry now Cmd cmd_str UserID s) = now * 1000 + m_CommandCounter s"
  "m_CommandString (Execute_entry now Cmd cmd_str UserID s) = cmd_str"
  "m_CacheUndoData (Execute_entry now Cmd cmd_str UserID s)
     = cmd_BackupCurrenState Cmd (database s)"
  "m_bHasBeenSaved (Execute_entry now Cmd cmd_str UserID s) = False"
  by (simp_all add: Execute_entry_def Let_def new_history_entry_def)

text \<open>What a call of the typed \<^verbatim>\<open>Execute\<close> that returns has done.\<close>

lemma ExecuteCmd_Inr:
  assumes "ExecuteCmd now Cmd cmd_str UserID s = Inr (msg, s')"
  shows "(fst (cmd_Parse Cmd cmd_str) \<noteq> [] \<and> msg = fst (cmd_Parse Cmd cmd_str) \<and> s' = s) \<or>
    (fst (cmd_Parse Cmd cmd_str) = [] \<and> cmd_hasHelp Cmd (snd (cmd_Parse Cmd cmd_str)) \<and>
       msg = [] \<and> s' = s) \<or>
    (fst (cmd_Parse Cmd cmd_str) = [] \<and> \<not> cmd_hasHelp Cmd (snd (cmd_Parse Cmd cmd_str)) \<and>
       msg = fst (cmd_Redo Cmd (snd (cmd_Parse Cmd cmd_str)) (database s)) \<and> msg \<noteq> [] \<and>
       s' = s\<lparr>m_CommandCounter := m_CommandCounter s + 1,
              database := snd (cmd_Redo Cmd (snd (cmd_Parse Cmd cmd_str)) (database s))\<rparr>) \<or>
    (fst (cmd_Parse Cmd cmd_str) = [] \<and> \<not> cmd_hasHelp Cmd (snd (cmd_Parse Cmd cmd_str)) \<and>
       fst (cmd_Redo Cmd (snd (cmd_Parse Cmd cmd_str)) (database s)) = [] \<and> msg = [] \<and>
       Execute_record (Execute_entry now Cmd cmd_str UserID s)
         (s\<lparr>m_CommandCounter := m_CommandCounter s + 1,
            database := snd (cmd_Redo Cmd (snd (cmd_Parse Cmd cmd_str)) (database s))\<rparr>)
         = Inr s')"
proof -
  obtain err p where p: "cmd_Parse Cmd cmd_str = (err, p)" by (cases "cmd_Parse Cmd cmd_str")
  obtain Err db where r: "cmd_Redo Cmd p (database s) = (Err, db)"
    by (cases "cmd_Redo Cmd p (database s)")
  from assms have d: "\<not> m_Done s" by (auto simp: ExecuteCmd_def split: if_splits)
  show ?thesis
  proof (cases "err = []")
    case False
    with assms d p show ?thesis by (simp add: ExecuteCmd_def)
  next
    case e1: True
    show ?thesis
    proof (cases "cmd_hasHelp Cmd p")
      case True
      with assms d p e1 show ?thesis by (simp add: ExecuteCmd_def)
    next
      case h: False
      show ?thesis
      proof (cases "Err = []")
        case False
        with assms d p e1 h r show ?thesis by (simp add: ExecuteCmd_def Let_def)
      next
        case True
        with assms d p e1 h r show ?thesis
          by (simp add: ExecuteCmd_def Let_def split: sum.splits)
      qed
    qed
  qed
qed

lemma ExecuteCmd_success:
  assumes "ExecuteCmd now Cmd cmd_str UserID s = Inr ([], s')"
  shows "(cmd_hasHelp Cmd (snd (cmd_Parse Cmd cmd_str)) \<longrightarrow> s' = s) \<and>
         (\<not> cmd_hasHelp Cmd (snd (cmd_Parse Cmd cmd_str)) \<longrightarrow>
            m_History s' = take (m_UndoIndex s) (m_History s) @ [length (heap s)] \<and>
            m_UndoIndex s' = m_UndoIndex s + 1)"
  using ExecuteCmd_Inr [OF assms] by (auto dest!: Execute_record_fields)

lemma Execute_success:
  "Execute now cmd_str UserID s = Inr ([], s') \<Longrightarrow>
     \<exists>Cmd. m_Commands s (getCommandName cmd_str) = Some Cmd \<and>
           ExecuteCmd now Cmd cmd_str UserID s = Inr ([], s')"
  by (auto simp: Execute_def split: if_splits option.splits)

lemma MoveCursor_fields [simp]:
  "cmd_Parse MoveCursor = xcmdline_Parse"
  "cmd_hasHelp MoveCursor = opt_h"
  "cmd_Redo MoveCursor = MoveCursor_Redo"
  "cmd_Undo MoveCursor = MoveCursor_Undo"
  "cmd_BackupCurrenState MoveCursor = MoveCursor_BackupCurrenState"
  by (simp_all add: MoveCursor_def)

lemma Undo_Null_Command:
  "\<not> m_Done s \<Longrightarrow> 0 < m_UndoIndex s \<Longrightarrow> m_UndoIndex s \<le> length (m_History s) \<Longrightarrow>
   (Undo s = Inl Null_Command) =
     (m_Commands s (getCommandName (m_CommandString
        (heap s ! (m_History s ! (m_UndoIndex s - 1))))) = None)"
  by (auto simp: Undo_def Let_def force_sync_def split: option.splits sum.splits if_splits
           dest: UpdateLRU_error)

lemma Redo_Null_Command:
  "\<not> m_Done s \<Longrightarrow> m_UndoIndex s < length (m_History s) \<Longrightarrow>
   (Redo s = Inl Null_Command) =
     (m_Commands s (getCommandName (m_CommandString
        (heap s ! (m_History s ! m_UndoIndex s)))) = None)"
  by (auto simp: Redo_def Let_def split: option.splits prod.splits sum.splits dest: UpdateLRU_error)

lemma Load_m_bHasBeenSaved [simp]:
  "m_bHasBeenSaved (snd (Load e p k c fs)) = m_bHasBeenSaved e"
  by (simp add: Load_def Let_def split: option.splits prod.splits)

lemma Load_keeps_cache [simp]:
  "m_CacheUndoData (snd (Load e p k False fs)) = m_CacheUndoData e"
  by (simp add: Load_def Let_def split: option.splits prod.splits)

lemma Load_keeps_key [simp]:
  "m_TimeStamp (snd (Load e p False c fs)) = m_TimeStamp e"
  "m_CommandString (snd (Load e p False c fs)) = m_CommandString e"
  "m_UserID (snd (Load e p False c fs)) = m_UserID e"
  by (simp_all add: Load_def Let_def split: option.splits prod.splits)

lemma job_Execute_fields [simp]:
  "m_UndoIndex (job_Execute j s) = m_UndoIndex s"
  "m_History (job_Execute j s) = m_History s"
  "m_LRU (job_Execute j s) = m_LRU s"
  "m_IOQueue (job_Execute j s) = m_IOQueue s"
  "m_Commands (job_Execute j s) = m_Commands s"
  "m_UndoPath (job_Execute j s) = m_UndoPath s"
  "m_DefaultUser (job_Execute j s) = m_DefaultUser s"
  "m_MaxCachedSteps (job_Execute j s) = m_MaxCachedSteps s"
  "m_LookAheadSteps (job_Execute j s) = m_LookAheadSteps s"
  "m_Done (job_Execute j s) = m_Done s"
  "m_bAutoLoadSave (job_Execute j s) = m_bAutoLoadSave s"
  "m_CommandCounter (job_Execute j s) = m_CommandCounter s"
  "database (job_Execute j s) = database s"
  "length (heap (job_Execute j s)) = length (heap s)"
  by (cases j; simp add: save_to_disk_Execute_def delete_entries_Execute_def
        warmup_cache_Execute_def load_entries_Execute_def Let_def split: prod.splits)+

lemma fold_job_Execute_fields [simp]:
  "m_UndoIndex (fold job_Execute js s) = m_UndoIndex s"
  "m_History (fold job_Execute js s) = m_History s"
  "m_LRU (fold job_Execute js s) = m_LRU s"
  "m_IOQueue (fold job_Execute js s) = m_IOQueue s"
  "m_Commands (fold job_Execute js s) = m_Commands s"
  "m_UndoPath (fold job_Execute js s) = m_UndoPath s"
  "m_DefaultUser (fold job_Execute js s) = m_DefaultUser s"
  "m_MaxCachedSteps (fold job_Execute js s) = m_MaxCachedSteps s"
  "m_LookAheadSteps (fold job_Execute js s) = m_LookAheadSteps s"
  "m_Done (fold job_Execute js s) = m_Done s"
  "m_bAutoLoadSave (fold job_Execute js s) = m_bAutoLoadSave s"
  "m_CommandCounter (fold job_Execute js s) = m_CommandCounter s"
  "database (fold job_Execute js s) = database s"
  "length (heap (fold job_Execute js s)) = length (heap s)"
  by (induction js arbitrary: s; simp)+

lemma IOWorker_fields [simp]:
  "m_UndoIndex (IOWorker k s) = m_UndoIndex s"
  "m_History (IOWorker k s) = m_History s"
  "m_LRU (IOWorker k s) = m_LRU s"
  "m_Commands (IOWorker k s) = m_Commands s"
  "m_UndoPath (IOWorker k s) = m_UndoPath s"
  "m_DefaultUser (IOWorker k s) = m_DefaultUser s"
  "m_MaxCachedSteps (IOWorker k s) = m_MaxCachedSteps s"
  "m_LookAheadSteps (IOWorker k s) = m_LookAheadSteps s"
  "m_Done (IOWorker k s) = m_Done s"
  "m_bAutoLoadSave (IOWorker k s) = m_bAutoLoadSave s"
  "m_CommandCounter (IOWorker k s) = m_CommandCounter s"
  "database (IOWorker k s) = database s"
  "length (heap (IOWorker k s)) = length (heap s)"
  by (simp_all add: IOWorker_def)

lemma SynJobQueue_fields [simp]:
  "m_UndoIndex (SynJobQueue s) = m_UndoIndex s"
  "m_History (SynJobQueue s) = m_History s"
  "m_LRU (SynJobQueue s) = m_LRU s"
  "m_Commands (SynJobQueue s) = m_Commands s"
  "m_UndoPath (SynJobQueue s) = m_UndoPath s"
  "m_DefaultUser (SynJobQueue s) = m_DefaultUser s"
  "m_MaxCachedSteps (SynJobQueue s) = m_MaxCachedSteps s"
  "m_LookAheadSteps (SynJobQueue s) = m_LookAheadSteps s"
  "m_Done (SynJobQueue s) = m_Done s"
  "m_bAutoLoadSave (SynJobQueue s) = m_bAutoLoadSave s"
  "m_CommandCounter (SynJobQueue s) = m_CommandCounter s"
  "database (SynJobQueue s) = database s"
  "length (heap (SynJobQueue s)) = length (heap s)"
  by (simp_all add: SynJobQueue_def)

lemma evict_LRU_length_heap [simp]:
  "length (snd (evict_LRU n lru h)) = length h"
  by (induction n lru h rule: evict_LRU.induct) simp_all


text \<open>The undo index never leaves the history.\<close>

lemma Undo_cursor:
  "Undo s = Inr s' \<Longrightarrow> m_UndoIndex s \<le> length (m_History s) \<Longrightarrow>
     m_UndoIndex s' \<le> length (m_History s')"
  by (auto simp: Undo_def Let_def force_sync_def warmup_cache_Execute_def
           split: if_splits option.splits sum.splits dest!: UpdateLRU_fields)

lemma Redo_cursor:
  "Redo s = Inr s' \<Longrightarrow> m_UndoIndex s \<le> length (m_History s) \<Longrightarrow>
     m_UndoIndex s' \<le> length (m_History s')"
  by (auto simp: Redo_def Let_def split: if_splits option.splits prod.splits sum.splits
           dest!: UpdateLRU_fields)

lemma ExecuteCmd_cursor:
  "ExecuteCmd now Cmd cmd_str UserID s = Inr (msg, s') \<Longrightarrow>
   m_UndoIndex s \<le> length (m_History s) \<Longrightarrow> m_UndoIndex s' \<le> length (m_History s')"
  by (auto dest!: ExecuteCmd_Inr Execute_record_fields)

lemma Execute_cursor:
  "Execute now cmd_str UserID s = Inr (msg, s') \<Longrightarrow>
   m_UndoIndex s \<le> length (m_History s) \<Longrightarrow> m_UndoIndex s' \<le> length (m_History s')"
  by (auto simp: Execute_def split: if_splits option.splits dest: ExecuteCmd_cursor)

lemma cache_latest_fields [simp]:
  "m_UndoIndex (cache_latest i s) = m_UndoIndex s"
  "m_History (cache_latest i s) = m_History s"
  "m_LRU (cache_latest i s) = m_LRU s @ [m_History s ! i]"
  "m_Commands (cache_latest i s) = m_Commands s"
  "m_UndoPath (cache_latest i s) = m_UndoPath s"
  "m_DefaultUser (cache_latest i s) = m_DefaultUser s"
  "m_MaxCachedSteps (cache_latest i s) = m_MaxCachedSteps s"
  "m_LookAheadSteps (cache_latest i s) = m_LookAheadSteps s"
  "m_Done (cache_latest i s) = m_Done s"
  "m_bAutoLoadSave (cache_latest i s) = m_bAutoLoadSave s"
  "m_CommandCounter (cache_latest i s) = m_CommandCounter s"
  "heap (cache_latest i s) = heap s"
  "files (cache_latest i s) = files s"
  "database (cache_latest i s) = database s"
  by (simp_all add: cache_latest_def Let_def)

lemma fold_cache_latest_fields [simp]:
  "m_UndoIndex (fold cache_latest is s) = m_UndoIndex s"
  "m_History (fold cache_latest is s) = m_History s"
  "m_LRU (fold cache_latest is s) = m_LRU s @ map (\<lambda>i. m_History s ! i) is"
  "m_Commands (fold cache_latest is s) = m_Commands s"
  "m_UndoPath (fold cache_latest is s) = m_UndoPath s"
  "m_DefaultUser (fold cache_latest is s) = m_DefaultUser s"
  "m_MaxCachedSteps (fold cache_latest is s) = m_MaxCachedSteps s"
  "m_LookAheadSteps (fold cache_latest is s) = m_LookAheadSteps s"
  "m_Done (fold cache_latest is s) = m_Done s"
  "m_bAutoLoadSave (fold cache_latest is s) = m_bAutoLoadSave s"
  "m_CommandCounter (fold cache_latest is s) = m_CommandCounter s"
  "heap (fold cache_latest is s) = heap s"
  "files (fold cache_latest is s) = files s"
  "database (fold cache_latest is s) = database s"
  by (induction "is" arbitrary: s; simp)+

lemma LoadTimestamps_fields:
  assumes "LoadTimestamps FilePath s = Inr (msg, s')"
  shows "m_UndoIndex s' = length (m_History s') \<and>
     length (m_LRU s') \<le> m_MaxCachedSteps s' \<and>
     m_Commands s' = m_Commands s \<and> m_UndoPath s' = m_UndoPath s \<and>
     m_DefaultUser s' = m_DefaultUser s \<and> m_MaxCachedSteps s' = m_MaxCachedSteps s \<and>
     m_LookAheadSteps s' = m_LookAheadSteps s \<and> m_Done s' = m_Done s \<and>
     m_bAutoLoadSave s' = m_bAutoLoadSave s \<and> m_CommandCounter s' = m_CommandCounter s \<and>
     database s' = database s"
  using assms
  by (auto simp: LoadTimestamps_def Let_def split: if_splits option.splits)

lemma Init_cursor:
  "Init UndoPath bAutoLoadSave s = Inr (msg, s') \<Longrightarrow>
   m_UndoIndex s \<le> length (m_History s) \<Longrightarrow> m_UndoIndex s' \<le> length (m_History s')"
  by (auto simp: Init_def Let_def split: if_splits dest!: LoadTimestamps_fields)

lemma step_cursor:
  "step e s = Inr s' \<Longrightarrow> m_UndoIndex s \<le> length (m_History s) \<Longrightarrow>
     m_UndoIndex s' \<le> length (m_History s')"
proof (cases e)
  case (Ev_Init p b)
  then show "step e s = Inr s' \<Longrightarrow> m_UndoIndex s \<le> length (m_History s) \<Longrightarrow> ?thesis"
    by (auto simp: drop_string_def split: sum.splits dest: Init_cursor)
next
  case (Ev_RegisterCommand c n)
  then show "step e s = Inr s' \<Longrightarrow> m_UndoIndex s \<le> length (m_History s) \<Longrightarrow> ?thesis"
    by (auto simp: RegisterCommand_def)
next
  case (Ev_Execute now str u)
  then show "step e s = Inr s' \<Longrightarrow> m_UndoIndex s \<le> length (m_History s) \<Longrightarrow> ?thesis"
    by (auto simp: drop_string_def split: sum.splits dest: Execute_cursor)
next
  case (Ev_ExecuteCmd now c str u)
  then show "step e s = Inr s' \<Longrightarrow> m_UndoIndex s \<le> length (m_History s) \<Longrightarrow> ?thesis"
    by (auto simp: drop_string_def split: sum.splits dest: ExecuteCmd_cursor)
next
  case Ev_Undo
  then show "step e s = Inr s' \<Longrightarrow> m_UndoIndex s \<le> length (m_History s) \<Longrightarrow> ?thesis"
    by (auto dest: Undo_cursor)
next
  case Ev_Redo
  then show "step e s = Inr s' \<Longrightarrow> m_UndoIndex s \<le> length (m_History s) \<Longrightarrow> ?thesis"
    by (auto dest: Redo_cursor)
next
  case (Ev_SaveTimestamps p)
  then show "step e s = Inr s' \<Longrightarrow> m_UndoIndex s \<le> length (m_History s) \<Longrightarrow> ?thesis"
    by (auto simp: drop_string_def SaveTimestamps_def Let_def split: sum.splits if_splits)
next
  case (Ev_LoadTimestamps p)
  then show "step e s = Inr s' \<Longrightarrow> m_UndoIndex s \<le> length (m_History s) \<Longrightarrow> ?thesis"
    by (auto simp: drop_string_def split: sum.splits dest!: LoadTimestamps_fields)
next
  case (Ev_IOWorker k)
  then show "step e s = Inr s' \<Longrightarrow> m_UndoIndex s \<le> length (m_History s) \<Longrightarrow> ?thesis"
    by auto
qed

lemma run_cursor:
  "run evs s = Inr s' \<Longrightarrow> m_UndoIndex s \<le> length (m_History s) \<Longrightarrow>
     m_UndoIndex s' \<le> length (m_History s')"
proof (induction evs arbitrary: s)
  case Nil
  then show ?case by simp
next
  case (Cons e evs)
  from Cons.prems(1) obtain s1 where s1: "step e s = Inr s1" and r: "run evs s1 = Inr s'"
    by (auto split: sum.splits)
  from step_cursor [OF s1 Cons.prems(2)] Cons.IH [OF r] show ?case by blast
qed












































lemma length_le_bytes [simp]: "length (le_bytes n w) = n"
proof -
  have "length (nat_bytes n x) = n" for x by (induction n arbitrary: x) simp_all
  then show ?thesis by (simp add: le_bytes_def)
qed

lemma le_bytes_4_not_Nil [simp]: "le_bytes 4 w \<noteq> []"
  using length_le_bytes [of 4 w] by (cases "le_bytes 4 w") simp_all







lemma look_ahead_positions_frame [simp]:
  "look_ahead_positions (s\<lparr>m_LRU := l, m_IOQueue := q\<rparr>) i = look_ahead_positions s i"
  by (simp add: look_ahead_positions_def cache_empty_def)










section \<open>Failed calls of Execute\<close>

text \<open>
  Claim C3. On an engine that is in use (\<^verbatim>\<open>m_Done\<close> is false, as both forms of
  \<^verbatim>\<open>Execute\<close> assert): when the name of the command is not registered, the dispatch
  form returns \<^verbatim>\<open>Unable find the command: \<close> followed by the name and leaves the
  engine as it was, and otherwise it is the typed form; when the parser reports an error,
  the typed form returns that error and leaves the engine as it was; when the command's
  \<^verbatim>\<open>Redo\<close> returns a non-empty string, the typed form returns that string, and the
  history, the undo index, the stored entries, the LRU window, the job queue and the
  files are what they were, so no entry is appended.
\<close>

theorem execute_errors_keep_history:
  "\<not> m_Done s \<Longrightarrow>
   (m_Commands s (getCommandName cmd_str) = None \<longrightarrow>
      Execute now cmd_str UserID s
        = Inr (''Unable find the command: '' @ getCommandName cmd_str, s)) \<and>
   (m_Commands s (getCommandName cmd_str) = Some Cmd \<longrightarrow>
      Execute now cmd_str UserID s = ExecuteCmd now Cmd cmd_str UserID s) \<and>
   (fst (cmd_Parse Cmd cmd_str) \<noteq> [] \<longrightarrow>
      ExecuteCmd now Cmd cmd_str UserID s = Inr (fst (cmd_Parse Cmd cmd_str), s)) \<and>
   (fst (cmd_Parse Cmd cmd_str) = [] \<and> \<not> cmd_hasHelp Cmd (snd (cmd_Parse Cmd cmd_str)) \<and>
    fst (cmd_Redo Cmd (snd (cmd_Parse Cmd cmd_str)) (database s)) \<noteq> [] \<longrightarrow>
      (\<exists>s'. ExecuteCmd now Cmd cmd_str UserID s
               = Inr (fst (cmd_Redo Cmd (snd (cmd_Parse Cmd cmd_str)) (database s)), s') \<and>
            m_History s' = m_History s \<and> m_UndoIndex s' = m_UndoIndex s \<and>
            heap s' = heap s \<and> m_LRU s' = m_LRU s \<and> m_IOQueue s' = m_IOQueue s \<and>
            files s' = files s))"
  by (auto simp: Execute_def ExecuteCmd_def Let_def split: prod.splits)

theorem execute_errors_keep_history_witness:
  "Execute 5 ''Jump 1 2'' (- 1) memory_engine
     = Inr (''Unable find the command: Jump'', memory_engine) \<and>
   ExecuteCmd 5 MoveCursor ''Move -Q'' (- 1) memory_engine
     = Inr (''Unknown option: -Q'', memory_engine) \<and>
   (\<exists>s'. Execute 5 ''Move'' (- 1) memory_engine
            = Inr (''Expecting -T x y but found nothing'', s') \<and>
         m_History s' = [] \<and> m_UndoIndex s' = 0 \<and> heap s' = [])"
proof -
  have d: "\<not> m_Done memory_engine" by simp
  have n: "getCommandName ''Jump 1 2'' = ''Jump''" "getCommandName ''Move'' = ''Move''"
    by (simp_all add: getCommandName_def)
  have p1: "xcmdline_Parse ''Move -Q'' = (''Unknown option: -Q'', \<lparr>opt_h = False, opt_T = None\<rparr>)"
    by (simp add: xcmdline_Parse_def)
  have p2: "xcmdline_Parse ''Move'' = ([], \<lparr>opt_h = False, opt_T = None\<rparr>)"
    by (simp add: xcmdline_Parse_def)
  have r: "MoveCursor_Redo \<lparr>opt_h = False, opt_T = None\<rparr> \<lparr>m_X = 0, m_Y = 0\<rparr>
             = (''Expecting -T x y but found nothing'', \<lparr>m_X = 0, m_Y = 0\<rparr>)"
    by (simp add: MoveCursor_Redo_def)
  from execute_errors_keep_history [OF d, where cmd_str = "''Jump 1 2''" and Cmd = MoveCursor and now = 5 and UserID = "- 1"]
  have a: "Execute 5 ''Jump 1 2'' (- 1) memory_engine
     = Inr (''Unable find the command: Jump'', memory_engine)"
    by (simp add: n)
  from execute_errors_keep_history [OF d, where cmd_str = "''Move -Q''" and Cmd = MoveCursor and now = 5 and UserID = "- 1"]
  have b: "ExecuteCmd 5 MoveCursor ''Move -Q'' (- 1) memory_engine
     = Inr (''Unknown option: -Q'', memory_engine)"
    by (simp add: p1)
  from execute_errors_keep_history [OF d, where cmd_str = "''Move''" and Cmd = MoveCursor and now = 5 and UserID = "- 1"]
  have c: "\<exists>s'. Execute 5 ''Move'' (- 1) memory_engine
            = Inr (''Expecting -T x y but found nothing'', s') \<and>
         m_History s' = [] \<and> m_UndoIndex s' = 0 \<and> heap s' = []"
    by (auto simp: n p2 r)
  from a b c show ?thesis by blast
qed

section \<open>Successful calls of Execute\<close>

text \<open>
  Claim C1, as the code has it. A call of \<^verbatim>\<open>Execute\<close> (either form) that returns the
  empty string on an engine whose undo index is within the history: with the help flag
  the engine is unchanged; without it the undo index afterwards is the length of the
  history, and that length is the undo index before the call plus one, which is more
  than the length before the call when the undo index was at the end of the history.
\<close>

theorem execute_success_moves_cursor_to_end:
  "ExecuteCmd now Cmd cmd_str UserID s = Inr ([], s') \<or>
     (m_Commands s (getCommandName cmd_str) = Some Cmd \<and>
      Execute now cmd_str UserID s = Inr ([], s')) \<Longrightarrow>
   m_UndoIndex s \<le> length (m_History s) \<Longrightarrow>
   (cmd_hasHelp Cmd (snd (cmd_Parse Cmd cmd_str)) \<longrightarrow> s' = s) \<and>
   (\<not> cmd_hasHelp Cmd (snd (cmd_Parse Cmd cmd_str)) \<longrightarrow>
      m_UndoIndex s' = length (m_History s') \<and>
      length (m_History s') = m_UndoIndex s + 1 \<and>
      (m_UndoIndex s = length (m_History s) \<longrightarrow> length (m_History s) < length (m_History s')))"
proof -
  assume a: "ExecuteCmd now Cmd cmd_str UserID s = Inr ([], s') \<or>
     (m_Commands s (getCommandName cmd_str) = Some Cmd \<and>
      Execute now cmd_str UserID s = Inr ([], s'))"
    and le: "m_UndoIndex s \<le> length (m_History s)"
  from a have "ExecuteCmd now Cmd cmd_str UserID s = Inr ([], s')"
    by (auto dest: Execute_success)
  from ExecuteCmd_success [OF this] le show ?thesis by auto
qed

text \<open>
  The claim as stated fails. After two commands and two undos the history has two
  entries and the undo index is 0: a third command returns the empty string and leaves
  a history of one entry, and a call with the help flag returns the empty string and
  leaves the undo index 0 under a history of two entries.
\<close>

theorem execute_success_counterexample:
  "\<not> isl (run [Ev_Execute 1 ''Move -T 1 1'' (- 1), Ev_Execute 2 ''Move -T 2 2'' (- 1),
               Ev_Undo, Ev_Undo] memory_engine) \<and>
   (let s = state_after [Ev_Execute 1 ''Move -T 1 1'' (- 1), Ev_Execute 2 ''Move -T 2 2'' (- 1),
                         Ev_Undo, Ev_Undo] memory_engine
    in m_UndoIndex s = 0 \<and> length (m_History s) = 2 \<and>
       map_sum id (\<lambda>(msg, s'). (msg, m_UndoIndex s', length (m_History s')))
         (Execute 3 ''Move -T 3 3'' (- 1) s) = Inr ([], 1, 1) \<and>
       map_sum id (\<lambda>(msg, s'). (msg, m_UndoIndex s', length (m_History s')))
         (Execute 3 ''Move -h'' (- 1) s) = Inr ([], 0, 2))"
  by code_simp

theorem execute_success_moves_cursor_to_end_witness:
  "\<exists>s'. Execute 5 ''Move -T 10 20'' (- 1) memory_engine = Inr ([], s') \<and>
        m_UndoIndex s' = length (m_History s') \<and> length (m_History s') = 1 \<and>
        length (m_History memory_engine) < length (m_History s')"
proof -
  have "case Execute 5 ''Move -T 10 20'' (- 1) memory_engine of
          Inr (msg, s') \<Rightarrow> msg = [] | Inl e \<Rightarrow> False"
    by code_simp
  then obtain s' where e: "Execute 5 ''Move -T 10 20'' (- 1) memory_engine = Inr ([], s')"
    by (auto split: sum.splits prod.splits)
  have c: "m_Commands memory_engine (getCommandName ''Move -T 10 20'') = Some MoveCursor"
    by (simp add: getCommandName_def)
  have h: "\<not> cmd_hasHelp MoveCursor (snd (cmd_Parse MoveCursor ''Move -T 10 20''))"
    by (simp add: xcmdline_Parse_def)
  from execute_success_moves_cursor_to_end [of 5 MoveCursor "''Move -T 10 20''" "- 1" memory_engine s']
    e c h
  show ?thesis by auto
qed

section \<open>The command lookup of Undo and Redo\<close>

text \<open>
  Claim C10. \<^verbatim>\<open>Undo\<close> and \<^verbatim>\<open>Redo\<close> subscript \<^verbatim>\<open>m_Commands\<close> with the name
  taken from the command string of the entry they work on and dereference what they
  get. On an engine in use, \<^verbatim>\<open>Undo\<close> with an undo index above 0 (and within the
  history) ends in the dereference of a null pointer exactly when that name is not
  registered, and so does \<^verbatim>\<open>Redo\<close> with an undo index below the length of the
  history: with the name registered, that branch is never taken.
\<close>

theorem undo_redo_need_registered_command:
  "\<not> m_Done s \<Longrightarrow>
   (0 < m_UndoIndex s \<and> m_UndoIndex s \<le> length (m_History s) \<longrightarrow>
      (Undo s = Inl Null_Command) =
        (m_Commands s (getCommandName (m_CommandString
           (heap s ! (m_History s ! (m_UndoIndex s - 1))))) = None)) \<and>
   (m_UndoIndex s < length (m_History s) \<longrightarrow>
      (Redo s = Inl Null_Command) =
        (m_Commands s (getCommandName (m_CommandString
           (heap s ! (m_History s ! m_UndoIndex s)))) = None))"
  using Undo_Null_Command [of s] Redo_Null_Command [of s] by blast


theorem undo_redo_need_registered_command_witness:
  "Undo (state_after [Ev_ExecuteCmd 1 MoveCursor ''Jump -T 1 1'' (- 1)] memory_engine)
     = Inl Null_Command \<and>
   Undo (state_after [Ev_Execute 1 ''Move -T 1 1'' (- 1)] memory_engine) \<noteq> Inl Null_Command \<and>
   Redo (state_after [Ev_Execute 1 ''Move -T 1 1'' (- 1), Ev_Undo] memory_engine)
     \<noteq> Inl Null_Command"
proof -
  let ?a = "state_after [Ev_ExecuteCmd 1 MoveCursor ''Jump -T 1 1'' (- 1)] memory_engine"
  let ?b = "state_after [Ev_Execute 1 ''Move -T 1 1'' (- 1)] memory_engine"
  let ?c = "state_after [Ev_Execute 1 ''Move -T 1 1'' (- 1), Ev_Undo] memory_engine"
  have a: "\<not> m_Done ?a \<and> 0 < m_UndoIndex ?a \<and> m_UndoIndex ?a \<le> length (m_History ?a) \<and>
           Option.is_none (m_Commands ?a (getCommandName (m_CommandString
             (heap ?a ! (m_History ?a ! (m_UndoIndex ?a - 1))))))"
    by code_simp
  have b: "\<not> m_Done ?b \<and> 0 < m_UndoIndex ?b \<and> m_UndoIndex ?b \<le> length (m_History ?b) \<and>
           \<not> Option.is_none (m_Commands ?b (getCommandName (m_CommandString
             (heap ?b ! (m_History ?b ! (m_UndoIndex ?b - 1))))))"
    by code_simp
  have c: "\<not> m_Done ?c \<and> m_UndoIndex ?c < length (m_History ?c) \<and>
           \<not> Option.is_none (m_Commands ?c (getCommandName (m_CommandString
             (heap ?c ! (m_History ?c ! m_UndoIndex ?c)))))"
    by code_simp
  from a undo_redo_need_registered_command [of ?a] have "Undo ?a = Inl Null_Command"
    by (simp add: Option.is_none_def)
  moreover from b undo_redo_need_registered_command [of ?b] have "Undo ?b \<noteq> Inl Null_Command"
    by (simp add: Option.is_none_def)
  moreover from c undo_redo_need_registered_command [of ?c] have "Redo ?c \<noteq> Inl Null_Command"
    by (simp add: Option.is_none_def)
  ultimately show ?thesis by blast
qed

section \<open>Unsaved entries\<close>



section \<open>The size of the LRU window\<close>




section \<open>The look-ahead of UpdateLRU\<close>




section \<open>Pruning the tail\<close>



end
